theory Spec2Isabelle
  imports Complex_Main
begin

section \<open>Python values and exceptions\<close>

text \<open>
  The values \<^verbatim>\<open>json.load\<close> can produce: \<^verbatim>\<open>None\<close>, \<^verbatim>\<open>bool\<close>, \<^verbatim>\<open>int\<close>
  (unbounded), \<^verbatim>\<open>float\<close>, \<^verbatim>\<open>str\<close>, \<^verbatim>\<open>list\<close> and \<^verbatim>\<open>dict\<close> with string keys.
  A dict is the list of its items; its keys are looked up with \<open>map_of\<close>.
\<close>

datatype pyval =
    PyNone
  | PyBool bool
  | PyInt int
  | PyFloat real
  | PyStr string
  | PyList "pyval list"
  | PyDict "(string \<times> pyval) list"

text \<open>
  The exceptions of \<^verbatim>\<open>scraper.py\<close> (lines 12-59) and the built-in ones its code can raise:
  \<^verbatim>\<open>ValueError\<close> (line 104), \<^verbatim>\<open>TypeError\<close> (\<^verbatim>\<open>re.match\<close> on a value that is not a
  string, subscripting a value that is not a dict with a string), \<^verbatim>\<open>KeyError\<close> (a missing
  key), and what \<^verbatim>\<open>open\<close> and \<^verbatim>\<open>json.load\<close> raise.
\<close>

datatype error =
    IncorrectSeedURLError
  | NumberOfArticlesOutOfRangeError
  | IncorrectNumberOfArticlesError
  | IncorrectHeadersError
  | IncorrectEncodingError
  | IncorrectTimeoutError
  | IncorrectVerifyError
  | ValueError
  | TypeError
  | KeyError string
  | OSError
  | JSONDecodeError

text \<open>\<^verbatim>\<open>isinstance(v, int)\<close> holds for \<^verbatim>\<open>int\<close> and for \<^verbatim>\<open>bool\<close>, its subclass, whose values
  compare as 1 and 0. \<open>py_int v\<close> is the integer \<open>v\<close> compares as, when it is an instance of
  \<^verbatim>\<open>int\<close>.\<close>

fun py_int :: "pyval \<Rightarrow> int option" where
  "py_int (PyInt i) = Some i"
| "py_int (PyBool b) = Some (if b then 1 else 0)"
| "py_int _ = None"

definition isinstance_int :: "pyval \<Rightarrow> bool" where
  "isinstance_int v = (py_int v \<noteq> None)"

fun isinstance_list :: "pyval \<Rightarrow> bool" where
  "isinstance_list (PyList _) = True"
| "isinstance_list _ = False"

fun isinstance_dict :: "pyval \<Rightarrow> bool" where
  "isinstance_dict (PyDict _) = True"
| "isinstance_dict _ = False"

fun isinstance_str :: "pyval \<Rightarrow> bool" where
  "isinstance_str (PyStr _) = True"
| "isinstance_str _ = False"

fun isinstance_bool :: "pyval \<Rightarrow> bool" where
  "isinstance_bool (PyBool _) = True"
| "isinstance_bool _ = False"

text \<open>\<^verbatim>\<open>config_dict[key]\<close> with a string key: a dict gives the value or raises
  \<^verbatim>\<open>KeyError\<close>; every other JSON value raises \<^verbatim>\<open>TypeError\<close>.\<close>

fun getitem :: "pyval \<Rightarrow> string \<Rightarrow> error + pyval" where
  "getitem (PyDict kvs) k = (case map_of kvs k of None \<Rightarrow> Inl (KeyError k) | Some v \<Rightarrow> Inr v)"
| "getitem _ k = Inl TypeError"

section \<open>The seed URL pattern\<close>

text \<open>
  The fragment of regular expressions that the pattern \<^verbatim>\<open>"https?://(www.)?"\<close> of line 106
  uses: a literal string, \<^verbatim>\<open>.\<close> (any character but a newline), \<^verbatim>\<open>?\<close> and concatenation.
  \<open>rmatch r s\<close> lists what is left of \<open>s\<close> after each way of matching \<open>r\<close> at its start;
  \<^verbatim>\<open>re.match\<close> returns a match object (always truthy) when there is one, and \<^verbatim>\<open>None\<close>
  otherwise. On a value that is not a string it raises \<^verbatim>\<open>TypeError\<close>.
\<close>

datatype regex = Str string | Dot | Opt regex | Cat regex regex

fun rmatch :: "regex \<Rightarrow> string \<Rightarrow> string list" where
  "rmatch (Str p) s = (if take (length p) s = p then [drop (length p) s] else [])"
| "rmatch Dot s = (case s of [] \<Rightarrow> [] | c # cs \<Rightarrow> if c = CHR 0x0A then [] else [cs])"
| "rmatch (Opt r) s = rmatch r s @ [s]"
| "rmatch (Cat r1 r2) s = concat (map (rmatch r2) (rmatch r1 s))"

definition seed_url_pattern :: regex where
  "seed_url_pattern =
     Cat (Str ''http'') (Cat (Opt (Str ''s'')) (Cat (Str ''://'') (Opt (Cat (Str ''www'') Dot))))"

fun re_match :: "regex \<Rightarrow> pyval \<Rightarrow> error + bool" where
  "re_match r (PyStr s) = Inr (rmatch r s \<noteq> [])"
| "re_match r _ = Inl TypeError"

section \<open>Config\<close>

text \<open>
  \<^verbatim>\<open>NUM_ARTICLES_UPPER_LIMIT\<close>, \<^verbatim>\<open>TIMEOUT_LOWER_LIMIT\<close> and \<^verbatim>\<open>TIMEOUT_UPPER_LIMIT\<close> are
  imported from \<^verbatim>\<open>core_utils.constants\<close>, which is not part of the source: they are
  parameters of the model.
\<close>

record limits =
  NUM_ARTICLES_UPPER_LIMIT :: int
  TIMEOUT_LOWER_LIMIT :: int
  TIMEOUT_UPPER_LIMIT :: int

text \<open>What \<^verbatim>\<open>open(path)\<close> followed by \<^verbatim>\<open>json.load\<close> gives for each path: the parsed
  document, or the exception raised.\<close>

type_synonym filesystem = "string \<Rightarrow> error + pyval"

record Config =
  path_to_config :: string

text \<open>Sequencing of two statements, the first of which may raise.\<close>

definition and_then :: "error + unit \<Rightarrow> error + unit \<Rightarrow> error + unit" where
  "and_then a b = (case a of Inl e \<Rightarrow> Inl e | Inr _ \<Rightarrow> b)"

text \<open>Lines 105-107: the loop over the seed URLs.\<close>

fun check_each_url :: "pyval list \<Rightarrow> error + unit" where
  "check_each_url [] = Inr ()"
| "check_each_url (url # urls) =
     (case re_match seed_url_pattern url of
        Inl e \<Rightarrow> Inl e
      | Inr m \<Rightarrow> if \<not> m then Inl IncorrectSeedURLError else check_each_url urls)"

text \<open>Lines 103-107.\<close>

definition check_seed_urls :: "pyval \<Rightarrow> error + unit" where
  "check_seed_urls config_dict =
     (case getitem config_dict ''seed_urls'' of
        Inl e \<Rightarrow> Inl e
      | Inr seed_urls \<Rightarrow>
          if \<not> isinstance_list seed_urls then Inl ValueError
          else (case seed_urls of PyList urls \<Rightarrow> check_each_url urls | _ \<Rightarrow> Inl TypeError))"

text \<open>Lines 108-112. The comparison of line 111 is only reached by an instance of
  \<^verbatim>\<open>int\<close>.\<close>

definition check_num_articles :: "limits \<Rightarrow> pyval \<Rightarrow> error + unit" where
  "check_num_articles L config_dict =
     (case getitem config_dict ''total_articles_to_find_and_parse'' of
        Inl e \<Rightarrow> Inl e
      | Inr n \<Rightarrow>
          if \<not> (isinstance_int n \<and> (case py_int n of Some i \<Rightarrow> 0 < i | None \<Rightarrow> False))
          then Inl IncorrectNumberOfArticlesError
          else (case py_int n of
                  None \<Rightarrow> Inl TypeError
                | Some i \<Rightarrow>
                    if i > NUM_ARTICLES_UPPER_LIMIT L then Inl NumberOfArticlesOutOfRangeError
                    else Inr ()))"

text \<open>Lines 113-114.\<close>

definition check_headers :: "pyval \<Rightarrow> error + unit" where
  "check_headers config_dict =
     (case getitem config_dict ''headers'' of
        Inl e \<Rightarrow> Inl e
      | Inr h \<Rightarrow> if \<not> isinstance_dict h then Inl IncorrectHeadersError else Inr ())"

text \<open>Lines 115-116.\<close>

definition check_encoding :: "pyval \<Rightarrow> error + unit" where
  "check_encoding config_dict =
     (case getitem config_dict ''encoding'' of
        Inl e \<Rightarrow> Inl e
      | Inr enc \<Rightarrow> if \<not> isinstance_str enc then Inl IncorrectEncodingError else Inr ())"

text \<open>Lines 117-119, with the chained comparison written out.\<close>

definition check_timeout :: "limits \<Rightarrow> pyval \<Rightarrow> error + unit" where
  "check_timeout L config_dict =
     (case getitem config_dict ''timeout'' of
        Inl e \<Rightarrow> Inl e
      | Inr t \<Rightarrow>
          if \<not> (isinstance_int t \<and>
                 (case py_int t of
                    Some i \<Rightarrow> TIMEOUT_LOWER_LIMIT L < i \<and> i < TIMEOUT_UPPER_LIMIT L
                  | None \<Rightarrow> False))
          then Inl IncorrectTimeoutError
          else Inr ())"

text \<open>Lines 120-121.\<close>

definition check_verify :: "pyval \<Rightarrow> error + unit" where
  "check_verify config_dict =
     (case getitem config_dict ''should_verify_certificate'' of
        Inl e \<Rightarrow> Inl e
      | Inr v \<Rightarrow> if \<not> isinstance_bool v then Inl IncorrectVerifyError else Inr ())"

text \<open>Lines 103-121: the checks on the loaded document, in the order of the source.\<close>

definition check_config_dict :: "limits \<Rightarrow> pyval \<Rightarrow> error + unit" where
  "check_config_dict L config_dict =
     and_then (check_seed_urls config_dict)
    (and_then (check_num_articles L config_dict)
    (and_then (check_headers config_dict)
    (and_then (check_encoding config_dict)
    (and_then (check_timeout L config_dict)
              (check_verify config_dict)))))"

text \<open>\<^verbatim>\<open>Config._validate_config_content\<close> (lines 97-121): load the file, then check it.\<close>

definition validate_config_content :: "filesystem \<Rightarrow> limits \<Rightarrow> Config \<Rightarrow> error + unit" where
  "validate_config_content fs L self =
     (case fs (path_to_config self) of
        Inl e \<Rightarrow> Inl e
      | Inr config_dict \<Rightarrow> check_config_dict L config_dict)"

text \<open>\<^verbatim>\<open>Config.__init__\<close> (lines 67-76): store the path and validate. The call of
  \<^verbatim>\<open>_extract_config_content\<close> is commented out in the source (line 76), so the instance
  holds the path and nothing else.\<close>

definition Config_init :: "filesystem \<Rightarrow> limits \<Rightarrow> string \<Rightarrow> error + Config" where
  "Config_init fs L path =
     (let self = \<lparr>path_to_config = path\<rparr>
      in case validate_config_content fs L self of
           Inl e \<Rightarrow> Inl e
         | Inr _ \<Rightarrow> Inr self)"



text \<open>
  The accessors (lines 123-177) have a docstring and no statement: each returns
  \<^verbatim>\<open>None\<close>, written \<open>None\<close> here, whatever the instance.
\<close>

definition get_seed_urls :: "Config \<Rightarrow> string list option" where
  "get_seed_urls self = None"

definition get_num_articles :: "Config \<Rightarrow> int option" where
  "get_num_articles self = None"

definition get_headers :: "Config \<Rightarrow> (string \<times> string) list option" where
  "get_headers self = None"

definition get_encoding :: "Config \<Rightarrow> string option" where
  "get_encoding self = None"

definition get_timeout :: "Config \<Rightarrow> int option" where
  "get_timeout self = None"

definition get_verify_certificate :: "Config \<Rightarrow> bool option" where
  "get_verify_certificate self = None"

definition get_headless_mode :: "Config \<Rightarrow> bool option" where
  "get_headless_mode self = None"

section \<open>Crawler and HTMLParser\<close>

text \<open>
  Every function from line 180 on has a docstring and no statement. A call evaluates its
  arguments, assigns no attribute, performs no request and returns \<^verbatim>\<open>None\<close>. An instance
  is modelled by the attributes assigned to it (name and value): the constructors of
  \<^verbatim>\<open>Crawler\<close> and \<^verbatim>\<open>HTMLParser\<close> assign none. A method is a function from the instance to
  the instance after the call and the value returned.
\<close>

type_synonym instance_dict = "(string \<times> pyval) list"

record datetime =
  year :: int
  month :: int
  day :: int
  hour :: int
  minute :: int
  second :: int

text \<open>The values the annotation of \<^verbatim>\<open>HTMLParser.parse\<close> names:
  \<^verbatim>\<open>Union[Article, bool, list]\<close>.\<close>

datatype parse_value =
    ArticleValue instance_dict
  | BoolValue bool
  | ListValue "pyval list"

text \<open>\<^verbatim>\<open>make_request\<close> (lines 180-190).\<close>

definition make_request :: "string \<Rightarrow> Config \<Rightarrow> pyval option" where
  "make_request url config = None"

text \<open>\<^verbatim>\<open>Crawler.__init__\<close> (lines 201-207).\<close>

definition Crawler_init :: "Config \<Rightarrow> instance_dict" where
  "Crawler_init config = []"

text \<open>\<^verbatim>\<open>Crawler._extract_url\<close> (lines 209-218); the argument is the parsed page.\<close>

definition extract_url :: "instance_dict \<Rightarrow> 'soup \<Rightarrow> instance_dict \<times> string option" where
  "extract_url self article_bs = (self, None)"

text \<open>\<^verbatim>\<open>Crawler.find_articles\<close> (lines 220-223).\<close>

definition find_articles :: "instance_dict \<Rightarrow> instance_dict \<times> unit option" where
  "find_articles self = (self, None)"

text \<open>\<^verbatim>\<open>Crawler.get_search_urls\<close> (lines 225-231).\<close>

definition get_search_urls :: "instance_dict \<Rightarrow> instance_dict \<times> pyval list option" where
  "get_search_urls self = (self, None)"

text \<open>\<^verbatim>\<open>HTMLParser.__init__\<close> (lines 243-251).\<close>

definition HTMLParser_init :: "string \<Rightarrow> int \<Rightarrow> Config \<Rightarrow> instance_dict" where
  "HTMLParser_init full_url article_id config = []"

text \<open>\<^verbatim>\<open>HTMLParser.unify_date_format\<close> (lines 269-278).\<close>

definition unify_date_format :: "instance_dict \<Rightarrow> string \<Rightarrow> instance_dict \<times> datetime option" where
  "unify_date_format self date_str = (self, None)"

text \<open>\<^verbatim>\<open>HTMLParser.parse\<close> (lines 280-286).\<close>

definition parse :: "instance_dict \<Rightarrow> instance_dict \<times> parse_value option" where
  "parse self = (self, None)"

section \<open>The rules of the specification\<close>

text \<open>
  The six rules of the configuration, as the specification words them. An integer is an
  instance of Python's \<^verbatim>\<open>int\<close>, which includes \<^verbatim>\<open>True\<close> (1) and \<^verbatim>\<open>False\<close> (0).
\<close>

definition matches_seed_pattern :: "pyval \<Rightarrow> bool" where
  "matches_seed_pattern u =
     (case u of PyStr s \<Rightarrow> rmatch seed_url_pattern s \<noteq> [] | _ \<Rightarrow> False)"

definition rule_seed_urls :: "pyval \<Rightarrow> bool" where
  "rule_seed_urls v = (case v of PyList urls \<Rightarrow> list_all matches_seed_pattern urls | _ \<Rightarrow> False)"

definition is_positive_integer :: "pyval \<Rightarrow> bool" where
  "is_positive_integer v = (case py_int v of Some i \<Rightarrow> 0 < i | None \<Rightarrow> False)"

definition exceeds_upper_limit :: "limits \<Rightarrow> pyval \<Rightarrow> bool" where
  "exceeds_upper_limit L v =
     (case py_int v of Some i \<Rightarrow> NUM_ARTICLES_UPPER_LIMIT L < i | None \<Rightarrow> False)"

definition rule_num_articles :: "limits \<Rightarrow> pyval \<Rightarrow> bool" where
  "rule_num_articles L v = (is_positive_integer v \<and> \<not> exceeds_upper_limit L v)"

definition rule_headers :: "pyval \<Rightarrow> bool" where
  "rule_headers v = isinstance_dict v"

definition rule_encoding :: "pyval \<Rightarrow> bool" where
  "rule_encoding v = isinstance_str v"

definition rule_timeout :: "limits \<Rightarrow> pyval \<Rightarrow> bool" where
  "rule_timeout L v =
     (case py_int v of
        Some i \<Rightarrow> TIMEOUT_LOWER_LIMIT L < i \<and> i < TIMEOUT_UPPER_LIMIT L
      | None \<Rightarrow> False)"

definition rule_verify :: "pyval \<Rightarrow> bool" where
  "rule_verify v = isinstance_bool v"

text \<open>The error kinds of the rules that the six field values violate, in the order of
  the rules.\<close>

definition violated_rules ::
  "limits \<Rightarrow> pyval \<Rightarrow> pyval \<Rightarrow> pyval \<Rightarrow> pyval \<Rightarrow> pyval \<Rightarrow> pyval \<Rightarrow> error list" where
  "violated_rules L seed n h enc t v =
     (if rule_seed_urls seed then [] else [IncorrectSeedURLError]) @
     (if \<not> is_positive_integer n then [IncorrectNumberOfArticlesError]
      else if exceeds_upper_limit L n then [NumberOfArticlesOutOfRangeError] else []) @
     (if rule_headers h then [] else [IncorrectHeadersError]) @
     (if rule_encoding enc then [] else [IncorrectEncodingError]) @
     (if rule_timeout L t then [] else [IncorrectTimeoutError]) @
     (if rule_verify v then [] else [IncorrectVerifyError])"






section \<open>Example documents\<close>

text \<open>The limits of the specification's scenario, \<open>(0, 60)\<close> for the timeout, with 150 as
  the largest number of articles.\<close>

definition example_limits :: limits where
  "example_limits =
     \<lparr>NUM_ARTICLES_UPPER_LIMIT = 150, TIMEOUT_LOWER_LIMIT = 0, TIMEOUT_UPPER_LIMIT = 60\<rparr>"

text \<open>A document with the given values of the seven fields.\<close>

definition document ::
  "pyval \<Rightarrow> pyval \<Rightarrow> pyval \<Rightarrow> pyval \<Rightarrow> pyval \<Rightarrow> pyval \<Rightarrow> pyval \<Rightarrow> pyval" where
  "document seed n h enc t v hm =
     PyDict [(''seed_urls'', seed),
             (''total_articles_to_find_and_parse'', n),
             (''headers'', h),
             (''encoding'', enc),
             (''timeout'', t),
             (''should_verify_certificate'', v),
             (''headless_mode'', hm)]"

text \<open>The valid configuration of the specification's scenario.\<close>

definition example_document :: pyval where
  "example_document =
     document (PyList [PyStr ''https://example.com/news'']) (PyInt 2) (PyDict [])
       (PyStr ''utf-8'') (PyInt 5) (PyBool True) (PyBool False)"

text \<open>A file system in which every path holds the given document.\<close>

definition holding :: "pyval \<Rightarrow> filesystem" where
  "holding doc = (\<lambda>path. Inr doc)"

section \<open>Each check succeeds exactly when its rule holds\<close>

lemma and_then_Inr [simp]: "and_then (Inr u) b = b" by (simp add: and_then_def)
lemma and_then_Inl [simp]: "and_then (Inl e) b = Inl e" by (simp add: and_then_def)


lemma check_each_url_strings:
  "list_all isinstance_str urls \<Longrightarrow>
   check_each_url urls =
     (if list_all matches_seed_pattern urls then Inr () else Inl IncorrectSeedURLError)"
proof (induction urls)
  case Nil
  show ?case by simp
next
  case (Cons u urls)
  from Cons.prems obtain s where u: "u = PyStr s" by (cases u) auto
  from Cons.prems have "list_all isinstance_str urls" by simp
  with Cons.IH show ?case by (simp add: u matches_seed_pattern_def)
qed









section \<open>What each check raises\<close>

lemma check_seed_urls_of:
  "getitem d ''seed_urls'' = Inr (PyList urls) \<Longrightarrow> list_all isinstance_str urls \<Longrightarrow>
   check_seed_urls d =
     (if rule_seed_urls (PyList urls) then Inr () else Inl IncorrectSeedURLError)"
  by (simp add: check_seed_urls_def rule_seed_urls_def check_each_url_strings)

lemma check_seed_urls_not_list:
  "getitem d ''seed_urls'' = Inr seed \<Longrightarrow> \<not> isinstance_list seed \<Longrightarrow>
   check_seed_urls d = Inl ValueError"
  by (simp add: check_seed_urls_def)

lemma check_num_articles_of:
  "getitem d ''total_articles_to_find_and_parse'' = Inr n \<Longrightarrow>
   check_num_articles L d =
     (if \<not> is_positive_integer n then Inl IncorrectNumberOfArticlesError
      else if exceeds_upper_limit L n then Inl NumberOfArticlesOutOfRangeError
      else Inr ())"
  by (auto simp: check_num_articles_def is_positive_integer_def exceeds_upper_limit_def
      isinstance_int_def split: option.splits)

lemma check_headers_of:
  "getitem d ''headers'' = Inr h \<Longrightarrow>
   check_headers d = (if rule_headers h then Inr () else Inl IncorrectHeadersError)"
  by (simp add: check_headers_def rule_headers_def)

lemma check_encoding_of:
  "getitem d ''encoding'' = Inr enc \<Longrightarrow>
   check_encoding d = (if rule_encoding enc then Inr () else Inl IncorrectEncodingError)"
  by (simp add: check_encoding_def rule_encoding_def)

lemma check_timeout_of:
  "getitem d ''timeout'' = Inr t \<Longrightarrow>
   check_timeout L d = (if rule_timeout L t then Inr () else Inl IncorrectTimeoutError)"
  by (auto simp: check_timeout_def rule_timeout_def isinstance_int_def split: option.splits)

lemma check_verify_of:
  "getitem d ''should_verify_certificate'' = Inr v \<Longrightarrow>
   check_verify d = (if rule_verify v then Inr () else Inl IncorrectVerifyError)"
  by (simp add: check_verify_def rule_verify_def)

lemma getitem_dict: "map_of kvs k = Some v \<Longrightarrow> getitem (PyDict kvs) k = Inr v"
  by simp

lemma Config_init_loaded:
  "fs path = Inr d \<Longrightarrow>
   Config_init fs L path =
     (case check_config_dict L d of Inl e \<Rightarrow> Inl e | Inr _ \<Rightarrow> Inr \<lparr>path_to_config = path\<rparr>)"
  by (simp add: Config_init_def validate_config_content_def)

lemma getitem_Inl: "getitem d k = Inl e \<Longrightarrow> e = TypeError \<or> e = KeyError k"
  by (cases d) (auto split: option.splits)

lemma check_headers_Inl:
  "check_headers d = Inl e \<Longrightarrow>
   e = IncorrectHeadersError \<or> e = TypeError \<or> e = KeyError ''headers''"
  by (auto simp: check_headers_def split: sum.splits if_splits dest: getitem_Inl)

lemma check_encoding_Inl:
  "check_encoding d = Inl e \<Longrightarrow>
   e = IncorrectEncodingError \<or> e = TypeError \<or> e = KeyError ''encoding''"
  by (auto simp: check_encoding_def split: sum.splits if_splits dest: getitem_Inl)

lemma check_timeout_Inl:
  "check_timeout L d = Inl e \<Longrightarrow>
   e = IncorrectTimeoutError \<or> e = TypeError \<or> e = KeyError ''timeout''"
  by (auto simp: check_timeout_def split: sum.splits if_splits dest: getitem_Inl)

lemma check_verify_Inl:
  "check_verify d = Inl e \<Longrightarrow>
   e = IncorrectVerifyError \<or> e = TypeError \<or> e = KeyError ''should_verify_certificate''"
  by (auto simp: check_verify_def split: sum.splits if_splits dest: getitem_Inl)

lemma and_then_Inl_cases:
  "and_then a b = Inl e \<Longrightarrow> a = Inl e \<or> (a = Inr () \<and> b = Inl e)"
  by (cases a) (auto simp: and_then_def)

lemma later_checks_errors:
  assumes "and_then (check_headers d) (and_then (check_encoding d)
     (and_then (check_timeout L d) (check_verify d))) = Inl e"
  shows "e \<noteq> IncorrectNumberOfArticlesError \<and> e \<noteq> NumberOfArticlesOutOfRangeError"
  using assms
  by (auto dest!: and_then_Inl_cases check_headers_Inl check_encoding_Inl check_timeout_Inl
      check_verify_Inl)

lemma remaining_check_error:
  "check_verify d = Inl e \<Longrightarrow> e \<noteq> IncorrectTimeoutError"
  by (auto dest: check_verify_Inl)

section \<open>The seed URL pattern accepts the strings that start with a scheme\<close>

lemma set_rmatch_Str: "set (rmatch (Str p) s) = {u. s = p @ u}"
proof -
  have "take (length p) s = p \<longleftrightarrow> s = p @ drop (length p) s"
    by (metis append_eq_conv_conj append_take_drop_id)
  then show ?thesis by auto
qed

lemma rmatch_Cat_nonempty:
  "rmatch (Cat a b) s \<noteq> [] \<longleftrightarrow> (\<exists>u \<in> set (rmatch a s). rmatch b u \<noteq> [])"
  by simp

lemma rmatch_Opt_nonempty: "rmatch (Opt r) s \<noteq> []"
  by simp

lemma set_rmatch_Opt: "set (rmatch (Opt r) s) = insert s (set (rmatch r s))"
  by simp

lemma seed_url_pattern_prefix:
  "rmatch seed_url_pattern s \<noteq> [] \<longleftrightarrow>
    (\<exists>u. s = ''http://'' @ u) \<or> (\<exists>u. s = ''https://'' @ u)"
  unfolding seed_url_pattern_def rmatch_Cat_nonempty set_rmatch_Str set_rmatch_Opt
  using rmatch_Opt_nonempty by auto

section \<open>Facts for evaluating the examples\<close>

lemmas example_defs =
  holding_def document_def example_document_def example_limits_def

lemmas rule_defs =
  rule_seed_urls_def matches_seed_pattern_def seed_url_pattern_def is_positive_integer_def
  exceeds_upper_limit_def rule_num_articles_def rule_headers_def rule_encoding_def
  rule_timeout_def rule_verify_def violated_rules_def

lemmas check_defs =
  check_seed_urls_def check_num_articles_def check_headers_def check_encoding_def
  check_timeout_def check_verify_def isinstance_int_def

section \<open>Claims\<close>

text \<open>
  Claim C1, as amended. Take a document that is a dict holding the six validated fields
  and whose \<^verbatim>\<open>seed_urls\<close>, when it is a list, holds strings only. When \<^verbatim>\<open>seed_urls\<close> is not
  a list the construction fails with \<^verbatim>\<open>ValueError\<close>, whatever the other fields hold.
  Otherwise it fails with the error kind of the earliest violated rule, in the order
  seed URLs, number of articles (not a positive integer, then out of range), headers,
  encoding, timeout, certificate flag, and succeeds when no rule is violated. When exactly
  one rule is violated \<open>violated_rules\<close> is a one-element list and that error is the
  one raised.
\<close>

theorem earliest_violated_rule_is_raised:
  assumes doc: "fs path = Inr (PyDict kvs)"
    and seed: "map_of kvs ''seed_urls'' = Some seed"
    and n: "map_of kvs ''total_articles_to_find_and_parse'' = Some n"
    and h: "map_of kvs ''headers'' = Some h"
    and enc: "map_of kvs ''encoding'' = Some enc"
    and t: "map_of kvs ''timeout'' = Some t"
    and v: "map_of kvs ''should_verify_certificate'' = Some v"
    and strings: "\<forall>urls. seed = PyList urls \<longrightarrow> list_all isinstance_str urls"
  shows "Config_init fs L path =
     (if \<not> isinstance_list seed then Inl ValueError
      else case violated_rules L seed n h enc t v of
             [] \<Rightarrow> Inr \<lparr>path_to_config = path\<rparr>
           | e # _ \<Rightarrow> Inl e)"
proof (cases "isinstance_list seed")
  case False
  then have "check_seed_urls (PyDict kvs) = Inl ValueError"
    using seed by (simp add: check_seed_urls_not_list)
  then show ?thesis
    using False doc by (simp add: Config_init_loaded check_config_dict_def)
next
  case True
  then obtain urls where urls: "seed = PyList urls" by (cases seed) auto
  with strings have "list_all isinstance_str urls" by simp
  then have 1: "check_seed_urls (PyDict kvs) =
      (if rule_seed_urls seed then Inr () else Inl IncorrectSeedURLError)"
    using seed urls check_seed_urls_of [of "PyDict kvs" urls] by simp
  note 2 = check_num_articles_of [OF getitem_dict [OF n], of L]
  note 3 = check_headers_of [OF getitem_dict [OF h]]
  note 4 = check_encoding_of [OF getitem_dict [OF enc]]
  note 5 = check_timeout_of [OF getitem_dict [OF t], of L]
  note 6 = check_verify_of [OF getitem_dict [OF v]]
  show ?thesis
    using True doc
    by (simp add: Config_init_loaded check_config_dict_def 1 2 3 4 5 6 violated_rules_def)
qed

text \<open>
  Two instances: a document that violates the timeout rule only (the upper limit is
  exclusive), and one that violates three rules, of which the earliest decides.
\<close>

theorem earliest_violated_rule_is_raised_witness:
  "Config_init
     (holding (document (PyList [PyStr ''https://example.com/news'']) (PyInt 2) (PyDict [])
        (PyStr ''utf-8'') (PyInt 60) (PyBool True) (PyBool False)))
     example_limits ''scrapper_config.json'' = Inl IncorrectTimeoutError
   \<and> violated_rules example_limits (PyList [PyStr ''https://example.com/news'']) (PyInt 2)
        (PyDict []) (PyStr ''utf-8'') (PyInt 60) (PyBool True) = [IncorrectTimeoutError]
   \<and> Config_init
     (holding (document (PyList [PyStr ''https://example.com/news'']) (PyInt 0) (PyDict [])
        (PyInt 8) (PyInt 60) (PyBool True) (PyBool False)))
     example_limits ''scrapper_config.json'' = Inl IncorrectNumberOfArticlesError
   \<and> violated_rules example_limits (PyList [PyStr ''https://example.com/news'']) (PyInt 0)
        (PyDict []) (PyInt 8) (PyInt 60) (PyBool True)
       = [IncorrectNumberOfArticlesError, IncorrectEncodingError, IncorrectTimeoutError]"
  using
    earliest_violated_rule_is_raised
      [of "holding (document (PyList [PyStr ''https://example.com/news'']) (PyInt 2)
        (PyDict []) (PyStr ''utf-8'') (PyInt 60) (PyBool True) (PyBool False))"
      "''scrapper_config.json''" _ "PyList [PyStr ''https://example.com/news'']" "PyInt 2"
      "PyDict []" "PyStr ''utf-8''" "PyInt 60" "PyBool True" example_limits]
    earliest_violated_rule_is_raised
      [of "holding (document (PyList [PyStr ''https://example.com/news'']) (PyInt 0)
        (PyDict []) (PyInt 8) (PyInt 60) (PyBool True) (PyBool False))"
      "''scrapper_config.json''" _ "PyList [PyStr ''https://example.com/news'']" "PyInt 0"
      "PyDict []" "PyInt 8" "PyInt 60" "PyBool True" example_limits]
  by (simp add: example_defs rule_defs)

text \<open>
  Claim C1 as stated fails. A document whose \<^verbatim>\<open>seed_urls\<close> is a string violates the
  first rule and no other, and the construction fails with \<^verbatim>\<open>ValueError\<close>; one whose
  \<^verbatim>\<open>seed_urls\<close> is the list \<^verbatim>\<open>[null]\<close> violates the first rule and no other, and the
  construction fails with \<^verbatim>\<open>TypeError\<close>. Neither is \<^verbatim>\<open>IncorrectSeedURLError\<close>.
\<close>

theorem seed_urls_other_errors_counterexample:
  "violated_rules example_limits (PyStr ''https://example.com/news'') (PyInt 2) (PyDict [])
       (PyStr ''utf-8'') (PyInt 5) (PyBool True) = [IncorrectSeedURLError]
   \<and> Config_init
       (holding (document (PyStr ''https://example.com/news'') (PyInt 2) (PyDict [])
          (PyStr ''utf-8'') (PyInt 5) (PyBool True) (PyBool False)))
       example_limits ''scrapper_config.json'' = Inl ValueError
   \<and> Config_init
       (holding (document (PyStr ''https://example.com/news'') (PyInt 2) (PyDict [])
          (PyStr ''utf-8'') (PyInt 5) (PyBool True) (PyBool False)))
       example_limits ''scrapper_config.json'' \<noteq> Inl IncorrectSeedURLError
   \<and> violated_rules example_limits (PyList [PyNone]) (PyInt 2) (PyDict [])
       (PyStr ''utf-8'') (PyInt 5) (PyBool True) = [IncorrectSeedURLError]
   \<and> Config_init
       (holding (document (PyList [PyNone]) (PyInt 2) (PyDict [])
          (PyStr ''utf-8'') (PyInt 5) (PyBool True) (PyBool False)))
       example_limits ''scrapper_config.json'' = Inl TypeError
   \<and> Config_init
       (holding (document (PyList [PyNone]) (PyInt 2) (PyDict [])
          (PyStr ''utf-8'') (PyInt 5) (PyBool True) (PyBool False)))
       example_limits ''scrapper_config.json'' \<noteq> Inl IncorrectSeedURLError"
  by (simp add: example_defs rule_defs Config_init_def validate_config_content_def
      check_config_dict_def check_defs)

text \<open>
  Claim C2. The valid configuration of the specification's scenario is constructed, and
  every accessor of the instance returns \<^verbatim>\<open>None\<close>, not the value of the document: the
  accessors have no statement, and the constructor stores the path only.
\<close>

theorem accessors_return_None:
  "Config_init (holding example_document) example_limits ''scrapper_config.json''
     = Inr \<lparr>path_to_config = ''scrapper_config.json''\<rparr>
   \<and> get_seed_urls \<lparr>path_to_config = ''scrapper_config.json''\<rparr> = None
   \<and> get_num_articles \<lparr>path_to_config = ''scrapper_config.json''\<rparr> = None
   \<and> get_headers \<lparr>path_to_config = ''scrapper_config.json''\<rparr> = None
   \<and> get_encoding \<lparr>path_to_config = ''scrapper_config.json''\<rparr> = None
   \<and> get_timeout \<lparr>path_to_config = ''scrapper_config.json''\<rparr> = None
   \<and> get_verify_certificate \<lparr>path_to_config = ''scrapper_config.json''\<rparr> = None
   \<and> get_headless_mode \<lparr>path_to_config = ''scrapper_config.json''\<rparr> = None"
  by (simp add: example_defs seed_url_pattern_def Config_init_def validate_config_content_def
      check_config_dict_def check_defs get_seed_urls_def get_num_articles_def get_headers_def
      get_encoding_def get_timeout_def get_verify_certificate_def get_headless_mode_def)

text \<open>
  Claim C3. A seed URL list whose second entry is the integer 1 makes validation fail
  with the \<^verbatim>\<open>TypeError\<close> of \<^verbatim>\<open>re.match\<close>, not with \<^verbatim>\<open>IncorrectSeedURLError\<close>: line 106
  matches each entry without checking that it is a string.
\<close>

theorem non_string_seed_url_raises_TypeError:
  "Config_init
     (holding (document (PyList [PyStr ''https://example.com/news'', PyInt 1]) (PyInt 2)
        (PyDict []) (PyStr ''utf-8'') (PyInt 5) (PyBool True) (PyBool False)))
     example_limits ''scrapper_config.json'' = Inl TypeError
   \<and> Config_init
     (holding (document (PyList [PyStr ''https://example.com/news'', PyInt 1]) (PyInt 2)
        (PyDict []) (PyStr ''utf-8'') (PyInt 5) (PyBool True) (PyBool False)))
     example_limits ''scrapper_config.json'' \<noteq> Inl IncorrectSeedURLError"
  by (simp add: example_defs seed_url_pattern_def Config_init_def validate_config_content_def
      check_config_dict_def check_defs)

text \<open>
  Claim C4. When validation reaches the rule of \<^verbatim>\<open>total_articles_to_find_and_parse\<close>
  (the seed URLs passed): a value that is not a positive integer raises
  \<^verbatim>\<open>IncorrectNumberOfArticlesError\<close>; a positive integer above the upper limit raises
  \<^verbatim>\<open>NumberOfArticlesOutOfRangeError\<close>; every positive integer up to the limit passes the
  rule, and validation raises neither error. An integer is an instance of Python's
  \<^verbatim>\<open>int\<close>.
\<close>

theorem num_articles_rule:
  assumes doc: "fs (path_to_config self) = Inr d"
    and seed: "check_seed_urls d = Inr ()"
    and n: "getitem d ''total_articles_to_find_and_parse'' = Inr n"
  shows "(\<not> is_positive_integer n \<longrightarrow>
           validate_config_content fs L self = Inl IncorrectNumberOfArticlesError)
       \<and> (is_positive_integer n \<and> exceeds_upper_limit L n \<longrightarrow>
           validate_config_content fs L self = Inl NumberOfArticlesOutOfRangeError)
       \<and> (is_positive_integer n \<and> \<not> exceeds_upper_limit L n \<longrightarrow>
           check_num_articles L d = Inr ()
           \<and> validate_config_content fs L self \<noteq> Inl IncorrectNumberOfArticlesError
           \<and> validate_config_content fs L self \<noteq> Inl NumberOfArticlesOutOfRangeError)"
  using later_checks_errors [of d L]
  by (auto simp add: validate_config_content_def doc check_config_dict_def seed
      check_num_articles_of [OF n])

text \<open>
  The three cases with the upper limit 150: the string \<^verbatim>\<open>"2"\<close>, the integer 151 and the
  integer 150.
\<close>

theorem num_articles_rule_witness:
  "validate_config_content
     (holding (document (PyList [PyStr ''https://example.com/news'']) (PyStr ''2'') (PyDict [])
        (PyStr ''utf-8'') (PyInt 5) (PyBool True) (PyBool False)))
     example_limits \<lparr>path_to_config = ''scrapper_config.json''\<rparr>
     = Inl IncorrectNumberOfArticlesError
   \<and> validate_config_content
     (holding (document (PyList [PyStr ''https://example.com/news'']) (PyInt 151) (PyDict [])
        (PyStr ''utf-8'') (PyInt 5) (PyBool True) (PyBool False)))
     example_limits \<lparr>path_to_config = ''scrapper_config.json''\<rparr>
     = Inl NumberOfArticlesOutOfRangeError
   \<and> check_num_articles example_limits
     (document (PyList [PyStr ''https://example.com/news'']) (PyInt 150) (PyDict [])
        (PyStr ''utf-8'') (PyInt 5) (PyBool True) (PyBool False)) = Inr ()"
  using
    num_articles_rule [of "holding (document (PyList [PyStr ''https://example.com/news'']) (PyStr ''2'')
          (PyDict []) (PyStr ''utf-8'') (PyInt 5) (PyBool True) (PyBool False))"
        "\<lparr>path_to_config = ''scrapper_config.json''\<rparr>" _ "PyStr ''2''" example_limits]
    num_articles_rule [of "holding (document (PyList [PyStr ''https://example.com/news'']) (PyInt 151)
          (PyDict []) (PyStr ''utf-8'') (PyInt 5) (PyBool True) (PyBool False))"
        "\<lparr>path_to_config = ''scrapper_config.json''\<rparr>" _ "PyInt 151" example_limits]
    num_articles_rule [of "holding (document (PyList [PyStr ''https://example.com/news'']) (PyInt 150)
          (PyDict []) (PyStr ''utf-8'') (PyInt 5) (PyBool True) (PyBool False))"
        "\<lparr>path_to_config = ''scrapper_config.json''\<rparr>" _ "PyInt 150" example_limits]
  by (simp add: example_defs check_seed_urls_def seed_url_pattern_def is_positive_integer_def
      exceeds_upper_limit_def)

text \<open>
  Claim C5. When validation reaches the timeout rule (the four earlier checks passed), the
  timeout passes exactly when it is an integer strictly above the lower limit and strictly
  below the upper limit, and validation raises \<^verbatim>\<open>IncorrectTimeoutError\<close> exactly when it is
  not.
\<close>

theorem timeout_rule:
  assumes doc: "fs (path_to_config self) = Inr d"
    and earlier: "check_seed_urls d = Inr ()" "check_num_articles L d = Inr ()"
      "check_headers d = Inr ()" "check_encoding d = Inr ()"
    and t: "getitem d ''timeout'' = Inr t"
  shows "(check_timeout L d = Inr () \<longleftrightarrow>
            (\<exists>i. py_int t = Some i \<and> TIMEOUT_LOWER_LIMIT L < i \<and> i < TIMEOUT_UPPER_LIMIT L))
       \<and> (validate_config_content fs L self = Inl IncorrectTimeoutError \<longleftrightarrow>
            \<not> (\<exists>i. py_int t = Some i \<and> TIMEOUT_LOWER_LIMIT L < i \<and> i < TIMEOUT_UPPER_LIMIT L))"
proof -
  have r: "rule_timeout L t \<longleftrightarrow>
      (\<exists>i. py_int t = Some i \<and> TIMEOUT_LOWER_LIMIT L < i \<and> i < TIMEOUT_UPPER_LIMIT L)"
    by (auto simp: rule_timeout_def split: option.splits)
  have v: "validate_config_content fs L self = and_then (check_timeout L d) (check_verify d)"
    by (simp add: validate_config_content_def doc check_config_dict_def earlier)
  show ?thesis
    using remaining_check_error [of d]
    by (auto simp: v check_timeout_of [OF t] r [symmetric])
qed

text \<open>
  With the limits \<open>(0, 60)\<close>: timeout 0 raises \<^verbatim>\<open>IncorrectTimeoutError\<close>, timeout 5
  is accepted.
\<close>

theorem timeout_rule_witness:
  "validate_config_content
     (holding (document (PyList [PyStr ''https://example.com/news'']) (PyInt 2) (PyDict [])
        (PyStr ''utf-8'') (PyInt 0) (PyBool True) (PyBool False)))
     example_limits \<lparr>path_to_config = ''scrapper_config.json''\<rparr>
     = Inl IncorrectTimeoutError
   \<and> check_timeout example_limits example_document = Inr ()
   \<and> validate_config_content (holding example_document) example_limits
       \<lparr>path_to_config = ''scrapper_config.json''\<rparr> \<noteq> Inl IncorrectTimeoutError"
  using
    timeout_rule [of "holding (document (PyList [PyStr ''https://example.com/news'']) (PyInt 2)
          (PyDict []) (PyStr ''utf-8'') (PyInt 0) (PyBool True) (PyBool False))"
        "\<lparr>path_to_config = ''scrapper_config.json''\<rparr>" _ example_limits "PyInt 0"]
    timeout_rule [of "holding example_document"
        "\<lparr>path_to_config = ''scrapper_config.json''\<rparr>" _ example_limits "PyInt 5"]
  by (simp add: example_defs check_seed_urls_def seed_url_pattern_def check_num_articles_def
      check_headers_def check_encoding_def isinstance_int_def)




text \<open>
  Claim C7. \<^verbatim>\<open>find_articles\<close> on a new \<^verbatim>\<open>Crawler\<close> returns \<^verbatim>\<open>None\<close> and leaves the
  instance without any attribute: no URL is collected, whatever the seed pages hold and
  whatever the configured number of articles.
\<close>

theorem find_articles_collects_nothing:
  "find_articles (Crawler_init config) = ([], None)"
  by (simp add: find_articles_def Crawler_init_def)

text \<open>
  Claim C8. \<^verbatim>\<open>parse\<close> returns \<^verbatim>\<open>None\<close> on every instance: neither the boolean
  \<^verbatim>\<open>False\<close> nor an article.
\<close>

theorem parse_returns_None:
  "snd (parse self) = None
   \<and> snd (parse self) \<noteq> Some (BoolValue False)
   \<and> (\<forall>article. snd (parse self) \<noteq> Some (ArticleValue article))
   \<and> parse (HTMLParser_init full_url article_id config) = ([], None)"
  by (simp add: parse_def HTMLParser_init_def)

text \<open>
  Claim C9. \<^verbatim>\<open>unify_date_format\<close> returns \<^verbatim>\<open>None\<close> for every string, so also for
  \<^verbatim>\<open>"2024-01-01 10:00"\<close>: no date string is normalised to a date-time value.
\<close>

theorem unify_date_format_returns_None:
  "unify_date_format self date_str = (self, None)
   \<and> snd (unify_date_format self ''2024-01-01 10:00'')
       \<noteq> Some \<lparr>year = 2024, month = 1, day = 1, hour = 10, minute = 0, second = 0\<rparr>"
  by (simp add: unify_date_format_def)

text \<open>
  Claim C10. In a document whose other fields pass their checks, the boolean \<^verbatim>\<open>true\<close>
  as \<^verbatim>\<open>total_articles_to_find_and_parse\<close> passes validation when the upper limit is at
  least 1, and a boolean as \<^verbatim>\<open>timeout\<close> passes validation when its numeric value (1 for
  \<^verbatim>\<open>true\<close>, 0 for \<^verbatim>\<open>false\<close>) lies strictly between the timeout limits.
\<close>

theorem booleans_pass_integer_checks:
  assumes doc: "fs (path_to_config self) = Inr d"
    and others: "check_seed_urls d = Inr ()" "check_headers d = Inr ()"
      "check_encoding d = Inr ()" "check_verify d = Inr ()"
  shows "(getitem d ''total_articles_to_find_and_parse'' = Inr (PyBool True)
          \<and> 1 \<le> NUM_ARTICLES_UPPER_LIMIT L \<and> check_timeout L d = Inr ()
          \<longrightarrow> validate_config_content fs L self = Inr ())
       \<and> (getitem d ''timeout'' = Inr (PyBool b)
          \<and> TIMEOUT_LOWER_LIMIT L < (if b then 1 else 0)
          \<and> (if b then 1 else 0) < TIMEOUT_UPPER_LIMIT L
          \<and> check_num_articles L d = Inr ()
          \<longrightarrow> validate_config_content fs L self = Inr ())"
  by (simp add: validate_config_content_def doc check_config_dict_def others
      check_num_articles_def check_timeout_def isinstance_int_def)

text \<open>
  With the limits \<open>(0, 60)\<close> and 150, a document with \<^verbatim>\<open>true\<close> in both fields is
  valid.
\<close>

theorem booleans_pass_integer_checks_witness:
  "validate_config_content
     (holding (document (PyList [PyStr ''https://example.com/news'']) (PyBool True) (PyDict [])
        (PyStr ''utf-8'') (PyBool True) (PyBool True) (PyBool False)))
     example_limits \<lparr>path_to_config = ''scrapper_config.json''\<rparr> = Inr ()"
  using
    booleans_pass_integer_checks [of "holding (document (PyList [PyStr ''https://example.com/news'']) (PyBool True)
          (PyDict []) (PyStr ''utf-8'') (PyBool True) (PyBool True) (PyBool False))"
        "\<lparr>path_to_config = ''scrapper_config.json''\<rparr>" _ example_limits True]
  by (simp add: example_defs check_seed_urls_def seed_url_pattern_def check_num_articles_def
      check_headers_def check_encoding_def check_timeout_def check_verify_def
      isinstance_int_def)

end
